theory Spec2Isabelle
  imports Complex_Main "HOL-Library.Word"
begin

section \<open>Numbers, dates and strings\<close>

text \<open>
  Amounts are JavaScript numbers in the source. They are modelled as exact rationals:
  comparison and addition are those of the source, IEEE rounding is outside the model.
\<close>

type_synonym amount = rat

definition LAMPORTS_PER_SOL :: rat where
  "LAMPORTS_PER_SOL = 1000000000"

text \<open>\<^verbatim>\<open>String(n)\<close> for a non-negative integer: its decimal digits.\<close>

definition digit_char :: "nat \<Rightarrow> char" where
  "digit_char d = ''0123456789'' ! d"

function string_of_nat :: "nat \<Rightarrow> string" where
  "string_of_nat n =
     (if n < 10 then [digit_char n] else string_of_nat (n div 10) @ [digit_char (n mod 10)])"
  by pat_completeness auto
termination
  by (relation "measure (\<lambda>n. n)") auto

declare string_of_nat.simps [simp del]

text \<open>\<^verbatim>\<open>s.padStart(2, '0')\<close>.\<close>

definition padStart2 :: "string \<Rightarrow> string" where
  "padStart2 s = replicate (2 - length s) CHR ''0'' @ s"

text \<open>
  The wall clock as \<^verbatim>\<open>new Date()\<close> shows it to \<^verbatim>\<open>getTodayKey\<close>: the local year, the
  zero-based month of \<^verbatim>\<open>getMonth()\<close> and the day of the month.
\<close>

record Date =
  fullYear :: nat
  month :: nat
  date :: nat

definition getTodayKey :: "Date \<Rightarrow> string" where
  "getTodayKey now =
     (let y = string_of_nat (fullYear now);
          m = padStart2 (string_of_nat (month now + 1));
          d = padStart2 (string_of_nat (date now))
      in y @ ''-'' @ m @ ''-'' @ d)"

section \<open>The network stub\<close>

text \<open>
  A transfer instruction as \<^verbatim>\<open>prepareTransfer\<close> builds it, and the RPC calls the wallet
  makes on its connection. The connection is a stub: it holds the answer to each call
  (\<open>Inl\<close> means the call raises) and every call made is appended to a log, so that
  "no network call" is a statement about that log.
\<close>

record Transaction =
  fromPubkey :: string
  toPubkey :: string
  lamports :: int
  recentBlockhash :: string

datatype rpc =
    GetBalance
  | GetLatestBlockhash
  | SimulateTransaction Transaction
  | SendRawTransaction Transaction
  | ConfirmTransaction string

record Connection =
  getBalance :: "nat \<Rightarrow> string + nat"
  getLatestBlockhash :: "string + (string \<times> nat)"
  simulateTransaction :: "string + string option"
  sendRawTransaction :: "string + string"
  confirmTransaction :: "string + unit"

text \<open>
  What lies outside the wallet object: the log of RPC calls, the delays slept (in
  milliseconds), and the contents of the agent's \<^verbatim>\<open>.spend.json\<close> file (\<open>None\<close>: no file).
  \<open>fsWritable\<close> tells whether a write to the key directory succeeds.
\<close>

record World =
  netCalls :: "rpc list"
  sleeps :: "nat list"
  ledgerFile :: "(string \<rightharpoonup> amount) option"
  fsWritable :: bool

definition call :: "rpc \<Rightarrow> World \<Rightarrow> World" where
  "call c wd = wd\<lparr>netCalls := netCalls wd @ [c]\<rparr>"

section \<open>txBuilder\<close>

definition prepareTransfer ::
  "Connection \<Rightarrow> string \<Rightarrow> string \<Rightarrow> int \<Rightarrow> World
     \<Rightarrow> (string + (Transaction \<times> string \<times> nat)) \<times> World" where
  "prepareTransfer connection from_key to_key lamps wd =
     (let wd1 = call GetLatestBlockhash wd in
      case getLatestBlockhash connection of
        Inl e \<Rightarrow> (Inl e, wd1)
      | Inr (blockhash, lastValidBlockHeight) \<Rightarrow>
          (Inr (\<lparr>fromPubkey = from_key, toPubkey = to_key, lamports = lamps,
                  recentBlockhash = blockhash\<rparr>, blockhash, lastValidBlockHeight), wd1))"

definition simulateAndSend ::
  "Connection \<Rightarrow> Transaction \<Rightarrow> World \<Rightarrow> (string + string) \<times> World" where
  "simulateAndSend connection tx wd =
     (let wd1 = call (SimulateTransaction tx) wd in
      case simulateTransaction connection of
        Inl e \<Rightarrow> (Inl e, wd1)
      | Inr (Some err) \<Rightarrow> (Inl err, wd1)
      | Inr None \<Rightarrow>
          (let wd2 = call (SendRawTransaction tx) wd1 in
           case sendRawTransaction connection of
             Inl e \<Rightarrow> (Inl e, wd2)
           | Inr sig \<Rightarrow>
               (let wd3 = call (ConfirmTransaction sig) wd2 in
                case confirmTransaction connection of
                  Inl e \<Rightarrow> (Inl e, wd3)
                | Inr _ \<Rightarrow> (Inr sig, wd3))))"

section \<open>AgentWallet\<close>

datatype tx_type = SOL_TRANSFER | SPL_TRANSFER | AIRDROP | CUSTOM

datatype tx_status = pending | confirmed | failed

record TransactionRecord =
  signature :: string
  tx_type :: tx_type
  tx_amount :: amount
  from_addr :: string
  to_addr :: "string option"
  timestamp :: Date
  status :: tx_status
  error :: "string option"

record AgentWallet =
  agentId :: string
  publicKey :: string
  txHistory :: "TransactionRecord list"
  maxSpendPerTx :: amount
  maxDailySpend :: amount
  spendLedger :: "string \<rightharpoonup> amount"

text \<open>
  The errors a transfer raises. The source throws plain \<^verbatim>\<open>Error\<close> objects; the two
  spend-limit errors are the policy errors of the specification.
\<close>

datatype wallet_error =
    SpendLimitExceeded amount amount
  | DailyCapExceeded amount amount
  | InvalidPublicKey string
  | SubmissionFailed string
  | QueryFailed string

definition isPolicyError :: "wallet_error \<Rightarrow> bool" where
  "isPolicyError e = (case e of SpendLimitExceeded _ _ \<Rightarrow> True
                       | DailyCapExceeded _ _ \<Rightarrow> True | _ \<Rightarrow> False)"

definition getTodaySpentFromLedger :: "Date \<Rightarrow> AgentWallet \<Rightarrow> amount" where
  "getTodaySpentFromLedger now w =
     (case spendLedger w (getTodayKey now) of None \<Rightarrow> 0 | Some v \<Rightarrow> v)"

text \<open>\<^verbatim>\<open>saveSpendLedger\<close> swallows a write error: the file then keeps its old contents.\<close>

definition saveSpendLedger :: "AgentWallet \<Rightarrow> World \<Rightarrow> World" where
  "saveSpendLedger w wd =
     (if fsWritable wd then wd\<lparr>ledgerFile := Some (spendLedger w)\<rparr> else wd)"

definition incrementTodaySpend ::
  "Date \<Rightarrow> amount \<Rightarrow> AgentWallet \<times> World \<Rightarrow> AgentWallet \<times> World" where
  "incrementTodaySpend now amountSOL s =
     (case s of (w, wd) \<Rightarrow>
        let key = getTodayKey now;
            current = (case spendLedger w key of None \<Rightarrow> 0 | Some v \<Rightarrow> v);
            w' = w\<lparr>spendLedger := (spendLedger w)(key \<mapsto> current + amountSOL)\<rparr>
        in (w', saveSpendLedger w' wd))"

text \<open>
  The surroundings of one call of \<^verbatim>\<open>sendSOL\<close>: the clock, whether
  \<^verbatim>\<open>new PublicKey(toAddress)\<close> accepts the address, and the connection stub. Event
  emission, metrics and logging do not raise and are left out.
\<close>

record Env =
  now :: Date
  validAddress :: "string \<Rightarrow> bool"
  connection :: Connection

text \<open>\<^verbatim>\<open>this.txHistory.push(record)\<close>.\<close>

definition pushTx :: "TransactionRecord \<Rightarrow> AgentWallet \<Rightarrow> AgentWallet" where
  "pushTx r w = w\<lparr>txHistory := txHistory w @ [r]\<rparr>"

text \<open>
  The network part of the \<^verbatim>\<open>try\<close> block of \<^verbatim>\<open>sendSOL\<close>: \<^verbatim>\<open>prepareTransfer\<close>, then
  \<^verbatim>\<open>simulateAndSend\<close> on its transaction. An exception of either leaves the block.
\<close>

definition submit ::
  "Connection \<Rightarrow> string \<Rightarrow> string \<Rightarrow> int \<Rightarrow> World \<Rightarrow> (string + string) \<times> World" where
  "submit conn from_key to_key lamps wd =
     (case prepareTransfer conn from_key to_key lamps wd of
        (Inl err, wd1) \<Rightarrow> (Inl err, wd1)
      | (Inr (tx, blockhash, lastValidBlockHeight), wd1) \<Rightarrow> simulateAndSend conn tx wd1)"

definition newRecord :: "Env \<Rightarrow> AgentWallet \<Rightarrow> string \<Rightarrow> amount \<Rightarrow> TransactionRecord" where
  "newRecord env w toAddress amountSOL =
     \<lparr>signature = [], tx_type = SOL_TRANSFER, tx_amount = amountSOL,
      from_addr = publicKey w, to_addr = Some toAddress,
      timestamp = now env, status = pending, error = None\<rparr>"

definition sendSOL ::
  "Env \<Rightarrow> string \<Rightarrow> amount \<Rightarrow> AgentWallet \<times> World
     \<Rightarrow> (wallet_error + string) \<times> AgentWallet \<times> World" where
  "sendSOL env toAddress amountSOL s =
     (case s of (w, wd) \<Rightarrow>
      if maxSpendPerTx w > 0 \<and> amountSOL > maxSpendPerTx w
      then (Inl (SpendLimitExceeded amountSOL (maxSpendPerTx w)), w, wd)
      else if maxDailySpend w > 0
              \<and> getTodaySpentFromLedger (now env) w + amountSOL > maxDailySpend w
      then (Inl (DailyCapExceeded (getTodaySpentFromLedger (now env) w + amountSOL)
                   (maxDailySpend w)), w, wd)
      else if \<not> validAddress env toAddress
      then (Inl (InvalidPublicKey toAddress), w, wd)
      else
        let lamps = \<lfloor>amountSOL * LAMPORTS_PER_SOL\<rfloor>;
            record = newRecord env w toAddress amountSOL
        in case submit (connection env) (publicKey w) toAddress lamps wd of
             (Inr sig, wd1) \<Rightarrow>
               (case incrementTodaySpend (now env) amountSOL
                       (pushTx (record\<lparr>signature := sig, status := confirmed\<rparr>) w, wd1) of
                  (w', wd2) \<Rightarrow> (Inr sig, w', wd2))
           | (Inl err, wd1) \<Rightarrow>
               (Inl (SubmissionFailed err),
                pushTx (record\<lparr>status := failed, error := Some err\<rparr>) w, wd1))"

text \<open>
  \<^verbatim>\<open>getSOLBalance\<close>: the \<^verbatim>\<open>while (attempts < 3)\<close> loop. \<open>getBalance c i\<close> is the stub's
  answer to the call made when \<open>attempts = i\<close>. After a failed call the loop sleeps
  \<^verbatim>\<open>200 * Math.pow(2, attempts)\<close> milliseconds; the delay is appended to \<open>sleeps\<close>.
\<close>

function getSOLBalance_loop ::
  "Connection \<Rightarrow> nat \<Rightarrow> string option \<Rightarrow> World \<Rightarrow> (wallet_error + amount) \<times> World" where
  "getSOLBalance_loop c attempts lastErr wd =
     (if attempts < 3 then
        (case getBalance c attempts of
           Inr lamps \<Rightarrow> (Inr (of_nat lamps / LAMPORTS_PER_SOL), call GetBalance wd)
         | Inl e \<Rightarrow>
             getSOLBalance_loop c (attempts + 1) (Some e)
               ((call GetBalance wd)\<lparr>sleeps := sleeps wd @ [200 * 2 ^ attempts]\<rparr>))
      else (Inl (QueryFailed (case lastErr of Some e \<Rightarrow> e | None \<Rightarrow> ''null'')), wd))"
  by pat_completeness auto
termination
  by (relation "measure (\<lambda>(c, attempts, lastErr, wd). 3 - attempts)") auto

declare getSOLBalance_loop.simps [simp del]

definition getSOLBalance :: "Connection \<Rightarrow> World \<Rightarrow> (wallet_error + amount) \<times> World" where
  "getSOLBalance c wd = getSOLBalance_loop c 0 None wd"


section \<open>SimulatedDex\<close>

definition DEVNET_POOL_ADDRESS :: string where
  "DEVNET_POOL_ADDRESS = ''9xQeWvG816bUx9EPjHmaT23yvVM2ZWbrrpZb9PusVFin''"

definition MIN_TRADE_SOL :: amount where
  "MIN_TRADE_SOL = 1 / 1000"

record SimulatedDex =
  totalBuyVolume :: amount
  totalSellVolume :: amount
  tradeCount :: nat

record DexStats =
  stats_tradeCount :: nat
  stats_totalBuyVolume :: amount
  stats_totalSellVolume :: amount
  netFlow :: amount

text \<open>
  The adapter holds a reference to the wallet, so its operations act on the adapter's
  counters, the wallet and the world together. \<^verbatim>\<open>buy\<close> reads the balance outside its
  \<^verbatim>\<open>try\<close> block (a failed read raises) and turns a failed transfer into \<^verbatim>\<open>null\<close>.
\<close>

definition buy ::
  "Env \<Rightarrow> amount \<Rightarrow> SimulatedDex \<times> AgentWallet \<times> World
     \<Rightarrow> (wallet_error + string option) \<times> SimulatedDex \<times> AgentWallet \<times> World" where
  "buy env amountSOL s =
     (case s of (dex, w, wd) \<Rightarrow>
      case getSOLBalance (connection env) wd of
        (Inl e, wd1) \<Rightarrow> (Inl e, dex, w, wd1)
      | (Inr balance, wd1) \<Rightarrow>
          if balance < amountSOL + MIN_TRADE_SOL then (Inr None, dex, w, wd1)
          else (case sendSOL env DEVNET_POOL_ADDRESS amountSOL (w, wd1) of
                  (Inr sig, w', wd2) \<Rightarrow>
                    (Inr (Some sig),
                     dex\<lparr>totalBuyVolume := totalBuyVolume dex + amountSOL,
                         tradeCount := tradeCount dex + 1\<rparr>, w', wd2)
                | (Inl err, w', wd2) \<Rightarrow> (Inr None, dex, w', wd2)))"

definition sell ::
  "amount \<Rightarrow> SimulatedDex \<times> AgentWallet \<times> World
     \<Rightarrow> string option \<times> SimulatedDex \<times> AgentWallet \<times> World" where
  "sell amountSOL s =
     (case s of (dex, w, wd) \<Rightarrow>
        (None,
         dex\<lparr>totalSellVolume := totalSellVolume dex + amountSOL,
             tradeCount := tradeCount dex + 1\<rparr>, w, wd))"

definition getStats :: "SimulatedDex \<Rightarrow> DexStats" where
  "getStats dex =
     \<lparr>stats_tradeCount = tradeCount dex,
      stats_totalBuyVolume = totalBuyVolume dex,
      stats_totalSellVolume = totalSellVolume dex,
      netFlow = totalBuyVolume dex - totalSellVolume dex\<rparr>"

section \<open>BaseAgent\<close>

datatype AgentState = idle | thinking | acting | paused | stopped

record AgentAction =
  action_type :: string
  params :: "(string \<times> string) list"
  reasoning :: string

record AgentConfig =
  cfg_cycleMs :: "nat option"
  cfg_maxCycles :: "nat option"

text \<open>
  What \<^verbatim>\<open>this.emit\<close> sends to the listeners and what \<^verbatim>\<open>logEvent\<close> hands to the event
  log, without the agent's identity and the time stamps. \<open>eventLog\<close> holds the
  records handed to \<^verbatim>\<open>logEvent\<close>; a failed file write is swallowed by the source.
\<close>

datatype emitted_event =
    E_started
  | E_paused
  | E_resumed
  | E_stopped nat
  | E_cycle_start nat
  | E_action AgentAction nat
  | E_cycle_end nat "AgentAction option"
  | E_error string nat

datatype log_event =
    L_started
  | L_paused
  | L_resumed
  | L_stopped nat
  | L_cycle_start nat
  | L_balance_paused amount amount
  | L_action AgentAction nat
  | L_cycle_end nat
  | L_error nat string

datatype hook = H_getSOLBalance | H_observe | H_think | H_act

text \<open>
  The names under which \<^verbatim>\<open>this.emit\<close> sends the events, and the \<^verbatim>\<open>type\<close> fields of
  the records handed to \<^verbatim>\<open>logEvent\<close>.
\<close>

definition eventName :: "emitted_event \<Rightarrow> string" where
  "eventName e =
     (case e of
        E_started \<Rightarrow> ''started''
      | E_paused \<Rightarrow> ''paused''
      | E_resumed \<Rightarrow> ''resumed''
      | E_stopped _ \<Rightarrow> ''stopped''
      | E_cycle_start _ \<Rightarrow> ''cycle_start''
      | E_action _ _ \<Rightarrow> ''action''
      | E_cycle_end _ _ \<Rightarrow> ''cycle_end''
      | E_error _ _ \<Rightarrow> ''error'')"

definition logType :: "log_event \<Rightarrow> string" where
  "logType e =
     (case e of
        L_started \<Rightarrow> ''started''
      | L_paused \<Rightarrow> ''paused''
      | L_resumed \<Rightarrow> ''resumed''
      | L_stopped _ \<Rightarrow> ''stopped''
      | L_cycle_start _ \<Rightarrow> ''cycle_start''
      | L_balance_paused _ _ \<Rightarrow> ''balance_paused''
      | L_action _ _ \<Rightarrow> ''action''
      | L_cycle_end _ \<Rightarrow> ''cycle_end''
      | L_error _ _ \<Rightarrow> ''error'')"

text \<open>
  The agent object and its run time: \<open>maxCycles = None\<close> is \<^verbatim>\<open>Infinity\<close>;
  \<open>cycleTimer\<close> is the handle last returned by \<^verbatim>\<open>setTimeout\<close>; \<open>pendingTimers\<close> are the
  handles of the timers that have been set and have neither fired nor been cleared;
  \<open>nextHandle\<close> is the supply of fresh handles; \<open>hookCalls\<close> logs the calls of the
  wallet's balance read and of the three abstract hooks; \<open>errorListener\<close> tells whether
  a listener for \<^verbatim>\<open>'error'\<close> is registered on the emitter; \<open>unhandled\<close> collects the
  errors with which a cycle's promise was rejected.
\<close>

record BaseAgent =
  state :: AgentState
  cycleCount :: nat
  cycleMs :: nat
  maxCycles :: "nat option"
  cycleTimer :: "nat option"
  pendingTimers :: "nat list"
  nextHandle :: nat
  emitted :: "emitted_event list"
  eventLog :: "log_event list"
  hookCalls :: "hook list"
  errorListener :: bool
  unhandled :: "string list"

datatype lifecycle_error = CannotRestart

definition BaseAgent_new :: "AgentConfig \<Rightarrow> BaseAgent" where
  "BaseAgent_new config =
     \<lparr>state = idle, cycleCount = 0,
      cycleMs = (case cfg_cycleMs config of None \<Rightarrow> 5000
                 | Some n \<Rightarrow> if n = 0 then 5000 else n),
      maxCycles = (case cfg_maxCycles config of None \<Rightarrow> None
                   | Some n \<Rightarrow> if n = 0 then None else Some n),
      cycleTimer = None, pendingTimers = [], nextHandle = 0,
      emitted = [], eventLog = [], hookCalls = [], errorListener = False, unhandled = []\<rparr>"


text \<open>
  \<^verbatim>\<open>this.emit\<close> of an event other than \<^verbatim>\<open>'error'\<close>: the listeners are called and return.
  An \<^verbatim>\<open>'error'\<close> event is special to Node's emitter: with no listener registered for
  it, \<^verbatim>\<open>emit\<close> throws (\<open>Inl\<close>).
\<close>

definition emit :: "emitted_event \<Rightarrow> BaseAgent \<Rightarrow> BaseAgent" where
  "emit e a = a\<lparr>emitted := emitted a @ [e]\<rparr>"

definition emitError :: "string \<Rightarrow> nat \<Rightarrow> BaseAgent \<Rightarrow> string + BaseAgent" where
  "emitError err cycle a =
     (if errorListener a then Inr (emit (E_error err cycle) a)
      else Inl (''Unhandled error: '' @ err))"

definition logEvent :: "log_event \<Rightarrow> BaseAgent \<Rightarrow> BaseAgent" where
  "logEvent e a = a\<lparr>eventLog := eventLog a @ [e]\<rparr>"

definition hookCall :: "hook \<Rightarrow> BaseAgent \<Rightarrow> BaseAgent" where
  "hookCall h a = a\<lparr>hookCalls := hookCalls a @ [h]\<rparr>"

text \<open>\<^verbatim>\<open>if (this.cycleTimer) clearTimeout(this.cycleTimer)\<close>.\<close>

definition clearCycleTimer :: "BaseAgent \<Rightarrow> BaseAgent" where
  "clearCycleTimer a =
     (case cycleTimer a of None \<Rightarrow> a
      | Some h \<Rightarrow> a\<lparr>pendingTimers := removeAll h (pendingTimers a)\<rparr>)"

definition stop :: "BaseAgent \<Rightarrow> BaseAgent" where
  "stop a =
     (let a1 = (clearCycleTimer a)\<lparr>state := stopped\<rparr>;
          a2 = emit (E_stopped (cycleCount a1)) a1
      in logEvent (L_stopped (cycleCount a2)) a2)"

definition pause :: "BaseAgent \<Rightarrow> BaseAgent" where
  "pause a =
     (let a1 = (clearCycleTimer a)\<lparr>state := paused\<rparr>;
          a2 = emit E_paused a1
      in logEvent L_paused a2)"

definition scheduleNextCycle :: "BaseAgent \<Rightarrow> BaseAgent" where
  "scheduleNextCycle a =
     (if state a = stopped \<or> state a = paused then a
      else if (case maxCycles a of None \<Rightarrow> False | Some m \<Rightarrow> cycleCount a \<ge> m)
      then stop a
      else a\<lparr>cycleTimer := Some (nextHandle a),
             pendingTimers := pendingTimers a @ [nextHandle a],
             nextHandle := nextHandle a + 1\<rparr>)"

definition start :: "BaseAgent \<Rightarrow> (lifecycle_error + unit) \<times> BaseAgent" where
  "start a =
     (if state a = stopped then (Inl CannotRestart, a)
      else (Inr (), scheduleNextCycle (logEvent L_started (emit E_started (a\<lparr>state := idle\<rparr>)))))"

definition resume :: "BaseAgent \<Rightarrow> BaseAgent" where
  "resume a =
     (if state a \<noteq> paused then a
      else scheduleNextCycle (logEvent L_resumed (emit E_resumed (a\<lparr>state := idle\<rparr>))))"

text \<open>
  What one cycle meets: the floor \<^verbatim>\<open>MIN_BALANCE_SOL\<close>, the outcome of the wallet's
  balance read and the three hooks of the concrete agent (\<open>Inl\<close>: the call raises). A
  cycle runs as one step: no lifecycle call comes in between its awaits.
\<close>

record CycleEnv =
  minBalance :: amount
  walletBalance :: "string + amount"
  observe :: "string + string"
  think :: "string \<Rightarrow> string + AgentAction option"
  act :: "AgentAction \<Rightarrow> string + unit"

datatype try_exit = Returned | Completed | Raised string

definition cycleEnd :: "AgentAction option \<Rightarrow> BaseAgent \<Rightarrow> try_exit \<times> BaseAgent" where
  "cycleEnd action a =
     (let a1 = a\<lparr>state := idle\<rparr>;
          a2 = emit (E_cycle_end (cycleCount a1) action) a1
      in (Completed, logEvent (L_cycle_end (cycleCount a2)) a2))"

definition observeThinkAct :: "CycleEnv \<Rightarrow> BaseAgent \<Rightarrow> try_exit \<times> BaseAgent" where
  "observeThinkAct env a =
     (let a1 = hookCall H_observe a in
      case observe env of
        Inl e \<Rightarrow> (Raised e, a1)
      | Inr observation \<Rightarrow>
          (let a2 = hookCall H_think a1 in
           case think env observation of
             Inl e \<Rightarrow> (Raised e, a2)
           | Inr None \<Rightarrow> cycleEnd None a2
           | Inr (Some action) \<Rightarrow>
               (let a3 = a2\<lparr>state := acting\<rparr>;
                    a4 = emit (E_action action (cycleCount a3)) a3;
                    a5 = logEvent (L_action action (cycleCount a4)) a4;
                    a6 = hookCall H_act a5
                in case act env action of
                     Inl e \<Rightarrow> (Raised e, a6)
                   | Inr _ \<Rightarrow> cycleEnd (Some action) a6)))"

text \<open>The \<^verbatim>\<open>try\<close> block of \<^verbatim>\<open>runCycle\<close>; \<open>Returned\<close> is its early \<^verbatim>\<open>return\<close>.\<close>

definition cycleBody :: "CycleEnv \<Rightarrow> BaseAgent \<Rightarrow> try_exit \<times> BaseAgent" where
  "cycleBody env a =
     (if minBalance env > 0 then
        (let a1 = hookCall H_getSOLBalance a in
         case walletBalance env of
           Inl e \<Rightarrow> (Raised e, a1)
         | Inr balance \<Rightarrow>
             if balance < minBalance env then
               (let a2 = a1\<lparr>state := paused\<rparr>;
                    a3 = emit E_paused a2
                in (Returned, logEvent (L_balance_paused balance (minBalance env)) a3))
             else observeThinkAct env a1)
      else observeThinkAct env a)"

definition runCycle :: "CycleEnv \<Rightarrow> BaseAgent \<Rightarrow> BaseAgent" where
  "runCycle env a =
     (if state a = stopped \<or> state a = paused then a
      else
        let a1 = a\<lparr>cycleCount := cycleCount a + 1, state := thinking\<rparr>;
            a2 = emit (E_cycle_start (cycleCount a1)) a1;
            a3 = logEvent (L_cycle_start (cycleCount a2)) a2
        in case cycleBody env a3 of
             (Returned, a4) \<Rightarrow> a4
           | (Completed, a4) \<Rightarrow> scheduleNextCycle a4
           | (Raised err, a4) \<Rightarrow>
               (case emitError err (cycleCount a4) a4 of
                  Inl e \<Rightarrow> a4\<lparr>unhandled := unhandled a4 @ [e]\<rparr>
                | Inr a5 \<Rightarrow>
                    (let a6 = logEvent (L_error (cycleCount a5) err) a5
                     in scheduleNextCycle (a6\<lparr>state := idle\<rparr>))))"

text \<open>
  The event loop: a pending timer fires and runs the cycle; \<open>tick\<close> fires the oldest
  pending timer, if there is one; \<open>runCycles\<close> lets one timer fire per element.
\<close>

definition fireTimer :: "nat \<Rightarrow> CycleEnv \<Rightarrow> BaseAgent \<Rightarrow> BaseAgent" where
  "fireTimer h env a =
     (if h \<in> set (pendingTimers a)
      then runCycle env (a\<lparr>pendingTimers := removeAll h (pendingTimers a)\<rparr>)
      else a)"

definition tick :: "CycleEnv \<Rightarrow> BaseAgent \<Rightarrow> BaseAgent" where
  "tick env a = (case pendingTimers a of [] \<Rightarrow> a | h # _ \<Rightarrow> fireTimer h env a)"



section \<open>KeyManager\<close>

type_synonym byte = "8 word"

type_synonym bytes = "byte list"

record Keypair =
  secretKey :: bytes
  keypairPublicKey :: string

record StoredKeyMeta =
  meta_agentId :: string
  meta_publicKey :: string
  createdAt :: string
  label :: "string option"

text \<open>
  The libraries \<^verbatim>\<open>KeyManager\<close> calls are parameters of the model: SHA-256 and
  AES-256-GCM of Node's \<^verbatim>\<open>crypto\<close> (encryption returns the ciphertext and the
  authentication tag; decryption returns \<open>None\<close> where \<^verbatim>\<open>setAuthTag\<close> or
  \<^verbatim>\<open>decipher.final()\<close> raises), \<^verbatim>\<open>Keypair.fromSecretKey\<close> (\<open>None\<close>: it raises) and
  \<^verbatim>\<open>JSON.stringify\<close> on the metadata.
\<close>

record Node =
  sha256 :: "string \<Rightarrow> bytes"
  gcmEncrypt :: "bytes \<Rightarrow> bytes \<Rightarrow> bytes \<Rightarrow> bytes \<times> bytes"
  gcmDecrypt :: "bytes \<Rightarrow> bytes \<Rightarrow> bytes \<Rightarrow> bytes \<Rightarrow> bytes option"
  fromSecretKey :: "bytes \<Rightarrow> Keypair option"
  jsonStringify :: "StoredKeyMeta \<Rightarrow> bytes"

text \<open>\<^verbatim>\<open>crypto.randomBytes(n)\<close>: the first \<open>n\<close> bytes of an entropy source.\<close>

definition randomBytes :: "(nat \<Rightarrow> byte) \<Rightarrow> nat \<Rightarrow> bytes" where
  "randomBytes entropy n = map entropy [0..<n]"

definition KEYS_DIR :: string where
  "KEYS_DIR = ''.agent-keys''"

definition IV_LENGTH :: nat where
  "IV_LENGTH = 16"

definition TAG_LENGTH :: nat where
  "TAG_LENGTH = 16"

definition DEFAULT_SECRET :: string where
  "DEFAULT_SECRET = ''default-dev-secret-change-me!!''"

text \<open>The key directory: its files by path, and whether a write to it succeeds.\<close>

record FileSystem =
  files :: "string \<rightharpoonup> bytes"
  writable :: bool

datatype key_error =
    NoKeyStored string
  | AuthenticationFailed
  | BadSecretKey
  | WriteFailed

record KeyManager =
  encryptionKey :: bytes

text \<open>
  \<^verbatim>\<open>secret || process.env.ENCRYPTION_SECRET || 'default-dev-secret-change-me!!'\<close>: an
  absent and an empty string are both falsy.
\<close>

definition truthy :: "string option \<Rightarrow> bool" where
  "truthy s = (case s of None \<Rightarrow> False | Some v \<Rightarrow> v \<noteq> [])"

definition rawSecret :: "string option \<Rightarrow> string option \<Rightarrow> string" where
  "rawSecret secret envSecret =
     (if truthy secret then the secret
      else if truthy envSecret then the envSecret
      else DEFAULT_SECRET)"

definition KeyManager_new :: "Node \<Rightarrow> string option \<Rightarrow> string option \<Rightarrow> KeyManager" where
  "KeyManager_new node secret envSecret =
     \<lparr>encryptionKey = sha256 node (rawSecret secret envSecret)\<rparr>"

definition keyPath :: "string \<Rightarrow> string" where
  "keyPath a = KEYS_DIR @ ''/'' @ a @ ''.key''"

definition metaPath :: "string \<Rightarrow> string" where
  "metaPath a = KEYS_DIR @ ''/'' @ a @ ''.meta.json''"

definition storeKey ::
  "Node \<Rightarrow> KeyManager \<Rightarrow> (nat \<Rightarrow> byte) \<Rightarrow> string \<Rightarrow> string \<Rightarrow> Keypair \<Rightarrow> string option
     \<Rightarrow> FileSystem \<Rightarrow> (key_error + StoredKeyMeta) \<times> FileSystem" where
  "storeKey node km entropy isoNow a keypair lbl fs =
     (let privateKeyBytes = secretKey keypair;
          iv = randomBytes entropy IV_LENGTH
      in case gcmEncrypt node (encryptionKey km) iv privateKeyBytes of
           (encrypted, authTag) \<Rightarrow>
             let stored = iv @ authTag @ encrypted in
             if \<not> writable fs then (Inl WriteFailed, fs)
             else
               let fs1 = fs\<lparr>files := (files fs)(keyPath a \<mapsto> stored)\<rparr>;
                   meta = \<lparr>meta_agentId = a, meta_publicKey = keypairPublicKey keypair,
                           createdAt = isoNow, label = lbl\<rparr>;
                   fs2 = fs1\<lparr>files := (files fs1)(metaPath a \<mapsto> jsonStringify node meta)\<rparr>
               in (Inr meta, fs2))"

text \<open>\<^verbatim>\<open>stored.subarray(i, j)\<close> is \<open>take (j - i) (drop i stored)\<close>.\<close>

definition loadKey :: "Node \<Rightarrow> KeyManager \<Rightarrow> string \<Rightarrow> FileSystem \<Rightarrow> key_error + Keypair" where
  "loadKey node km a fs =
     (case files fs (keyPath a) of
        None \<Rightarrow> Inl (NoKeyStored a)
      | Some stored \<Rightarrow>
          let iv = take IV_LENGTH stored;
              authTag = take TAG_LENGTH (drop IV_LENGTH stored);
              ciphertext = drop (IV_LENGTH + TAG_LENGTH) stored
          in case gcmDecrypt node (encryptionKey km) iv authTag ciphertext of
               None \<Rightarrow> Inl AuthenticationFailed
             | Some decrypted \<Rightarrow>
                 (case fromSecretKey node decrypted of
                    None \<Rightarrow> Inl BadSecretKey
                  | Some keypair \<Rightarrow> Inr keypair))"

definition hasKey :: "string \<Rightarrow> FileSystem \<Rightarrow> bool" where
  "hasKey a fs = (files fs (keyPath a) \<noteq> None)"

definition deleteKey :: "string \<Rightarrow> FileSystem \<Rightarrow> FileSystem" where
  "deleteKey a fs = fs\<lparr>files := ((files fs)(keyPath a := None))(metaPath a := None)\<rparr>"

subsection \<open>A small instance of the libraries\<close>

text \<open>
  Not AES and not SHA-256: an instance small enough to evaluate, used only to run
  \<^verbatim>\<open>storeKey\<close> and \<^verbatim>\<open>loadKey\<close> on concrete inputs. The digest is the secret's bytes cut or
  zero-padded to 32; the cipher adds the first key byte to every byte and tags with the
  first 16 bytes of the key; a secret key is accepted when it has 64 bytes.
\<close>

definition bytes_of_string :: "string \<Rightarrow> bytes" where
  "bytes_of_string s = map (\<lambda>c. of_nat (of_char c)) s"

definition toyNode :: Node where
  "toyNode =
     \<lparr>sha256 = (\<lambda>s. take 32 (bytes_of_string s @ replicate 32 0)),
      gcmEncrypt = (\<lambda>key iv m. (map (\<lambda>b. b + key ! 0) m, take 16 key)),
      gcmDecrypt = (\<lambda>key iv tag ct.
         if tag = take 16 key then Some (map (\<lambda>b. b - key ! 0) ct) else None),
      fromSecretKey = (\<lambda>bs.
         if length bs = 64 then Some \<lparr>secretKey = bs, keypairPublicKey = ''toy''\<rparr> else None),
      jsonStringify = (\<lambda>m. bytes_of_string (meta_agentId m))\<rparr>"

definition toyKeypair :: Keypair where
  "toyKeypair = \<lparr>secretKey = replicate 64 7, keypairPublicKey = ''toy''\<rparr>"

definition emptyFs :: FileSystem where
  "emptyFs = \<lparr>files = Map.empty, writable = True\<rparr>"

section \<open>Concrete inputs\<close>

text \<open>
  A connection whose first \<open>n\<close> balance reads raise and whose other calls succeed, one
  on which every call raises, two consecutive days, a wallet with given limits and an
  empty history and ledger, and the world before any call.
\<close>

definition failingFirst :: "nat \<Rightarrow> Connection" where
  "failingFirst n =
     \<lparr>getBalance = (\<lambda>i. if i < n then Inl (''timeout '' @ string_of_nat i)
                           else Inr 2500000000),
      getLatestBlockhash = Inr (''blockhash'', 100),
      simulateTransaction = Inr None,
      sendRawTransaction = Inr ''sig1'',
      confirmTransaction = Inr ()\<rparr>"

definition downConnection :: Connection where
  "downConnection =
     \<lparr>getBalance = (\<lambda>i. Inl ''unreachable''),
      getLatestBlockhash = Inl ''unreachable'',
      simulateTransaction = Inl ''unreachable'',
      sendRawTransaction = Inl ''unreachable'',
      confirmTransaction = Inl ''unreachable''\<rparr>"

definition day1 :: Date where
  "day1 = \<lparr>fullYear = 2026, month = 0, date = 5\<rparr>"


definition envOn :: "Date \<Rightarrow> Connection \<Rightarrow> Env" where
  "envOn d c = \<lparr>now = d, validAddress = (\<lambda>s. s \<noteq> []), connection = c\<rparr>"

definition wallet0 :: "amount \<Rightarrow> amount \<Rightarrow> AgentWallet" where
  "wallet0 perTx daily =
     \<lparr>agentId = ''agent-x'', publicKey = ''pubkey-x'', txHistory = [],
      maxSpendPerTx = perTx, maxDailySpend = daily, spendLedger = Map.empty\<rparr>"

definition world0 :: World where
  "world0 = \<lparr>netCalls = [], sleeps = [], ledgerFile = None, fsWritable = True\<rparr>"

text \<open>
  A cycle in which the decision is to do nothing, and one that finds the balance
  (half a SOL) under a floor of one SOL.
\<close>

definition quietEnv :: CycleEnv where
  "quietEnv =
     \<lparr>minBalance = 0, walletBalance = Inr 2, observe = Inr ''observation'',
      think = (\<lambda>obs. Inr None), act = (\<lambda>action. Inr ())\<rparr>"

definition lowEnv :: CycleEnv where
  "lowEnv = quietEnv\<lparr>minBalance := 1, walletBalance := Inr (1 / 2)\<rparr>"

definition config3 :: AgentConfig where
  "config3 = \<lparr>cfg_cycleMs = None, cfg_maxCycles = Some 3\<rparr>"







section \<open>Facts about the wallet\<close>

lemma call_fields [simp]:
  "netCalls (call c wd) = netCalls wd @ [c]" "sleeps (call c wd) = sleeps wd"
  "ledgerFile (call c wd) = ledgerFile wd" "fsWritable (call c wd) = fsWritable wd"
  by (simp_all add: call_def)

lemma submit_world:
  "submit conn f t l wd = (r, wd1) \<Longrightarrow>
     ledgerFile wd1 = ledgerFile wd \<and> fsWritable wd1 = fsWritable wd \<and> sleeps wd1 = sleeps wd
     \<and> (\<exists>cs. cs \<noteq> [] \<and> netCalls wd1 = netCalls wd @ cs)"
  by (auto simp: submit_def prepareTransfer_def simulateAndSend_def Let_def
      split: sum.splits prod.splits option.splits)






section \<open>Policy rejection\<close>

text \<open>
  C1. When a per-transfer limit is configured and the amount is strictly above it,
  \<^verbatim>\<open>sendSOL\<close> raises the spend-limit policy error and returns the wallet and the world
  as they were: no RPC call is logged, no record is appended to the history, and the
  spend ledger and its file are untouched.
\<close>

theorem sendSOL_over_limit_rejected:
  assumes "maxSpendPerTx w > 0" and "amountSOL > maxSpendPerTx w"
  shows "sendSOL env toAddress amountSOL (w, wd)
           = (Inl (SpendLimitExceeded amountSOL (maxSpendPerTx w)), w, wd)
         \<and> isPolicyError (SpendLimitExceeded amountSOL (maxSpendPerTx w))"
  using assms by (simp add: sendSOL_def isPolicyError_def)

text \<open>The scenario of the specification: a limit of 0.05 and a transfer of 0.08.\<close>

theorem sendSOL_over_limit_rejected_witness:
  "sendSOL (envOn day1 (failingFirst 0)) ''pool'' (8 / 100) (wallet0 (5 / 100) 0, world0)
     = (Inl (SpendLimitExceeded (8 / 100) (5 / 100)), wallet0 (5 / 100) 0, world0)
   \<and> netCalls world0 = [] \<and> txHistory (wallet0 (5 / 100) 0) = []"
proof -
  have lim: "maxSpendPerTx (wallet0 (5 / 100) 0) > 0"
    and over: "8 / 100 > maxSpendPerTx (wallet0 (5 / 100) 0)"
    by (simp_all add: wallet0_def)
  from sendSOL_over_limit_rejected[OF lim over, of "envOn day1 (failingFirst 0)" "''pool''" world0]
  show ?thesis
    by (simp add: wallet0_def world0_def)
qed

section \<open>Failed submission\<close>

text \<open>
  C8. A transfer passes both policy checks and has a valid address, and the network
  part of the \<^verbatim>\<open>try\<close> block raises \<open>err\<close>. Then \<^verbatim>\<open>sendSOL\<close> raises that error, the
  history grows by exactly one record, which has status \<open>failed\<close> and carries the
  error, and the spend ledger and the ledger file are those from before the call.
\<close>

theorem sendSOL_failed_submission:
  assumes "\<not> (maxSpendPerTx w > 0 \<and> amountSOL > maxSpendPerTx w)"
    and "\<not> (maxDailySpend w > 0
             \<and> getTodaySpentFromLedger (now env) w + amountSOL > maxDailySpend w)"
    and "validAddress env toAddress"
    and "submit (connection env) (publicKey w) toAddress \<lfloor>amountSOL * LAMPORTS_PER_SOL\<rfloor> wd
           = (Inl err, wd1)"
  shows "sendSOL env toAddress amountSOL (w, wd)
           = (Inl (SubmissionFailed err),
              w\<lparr>txHistory := txHistory w
                   @ [(newRecord env w toAddress amountSOL)
                        \<lparr>status := failed, error := Some err\<rparr>]\<rparr>,
              wd1)
         \<and> spendLedger (fst (snd (sendSOL env toAddress amountSOL (w, wd)))) = spendLedger w
         \<and> ledgerFile wd1 = ledgerFile wd"
  using assms submit_world[OF assms(4)]
  by (simp add: sendSOL_def Let_def pushTx_def)

theorem sendSOL_failed_submission_witness:
  "sendSOL (envOn day1 downConnection) ''pool'' (1 / 10) (wallet0 0 0, world0)
     = (Inl (SubmissionFailed ''unreachable''),
        (wallet0 0 0)\<lparr>txHistory :=
          [\<lparr>signature = [], tx_type = SOL_TRANSFER, tx_amount = 1 / 10,
            from_addr = ''pubkey-x'', to_addr = Some ''pool'', timestamp = day1,
            status = failed, error = Some ''unreachable''\<rparr>]\<rparr>,
        world0\<lparr>netCalls := [GetLatestBlockhash]\<rparr>)"
proof -
  have p: "\<not> (maxSpendPerTx (wallet0 0 0) > 0 \<and> 1 / 10 > maxSpendPerTx (wallet0 0 0))"
    and d: "\<not> (maxDailySpend (wallet0 0 0) > 0
        \<and> getTodaySpentFromLedger (now (envOn day1 downConnection)) (wallet0 0 0) + 1 / 10
            > maxDailySpend (wallet0 0 0))"
    and v: "validAddress (envOn day1 downConnection) ''pool''"
    by (simp_all add: wallet0_def envOn_def)
  have s: "submit (connection (envOn day1 downConnection)) (publicKey (wallet0 0 0)) ''pool''
             \<lfloor>1 / 10 * LAMPORTS_PER_SOL\<rfloor> world0
           = (Inl ''unreachable'', world0\<lparr>netCalls := [GetLatestBlockhash]\<rparr>)"
    by (simp add: submit_def prepareTransfer_def envOn_def downConnection_def call_def
        world0_def)
  from sendSOL_failed_submission[OF p d v s]
  show ?thesis
    by (simp add: newRecord_def wallet0_def envOn_def)
qed

section \<open>The daily cap\<close>








section \<open>Balance reads\<close>

text \<open>The loop of \<^verbatim>\<open>getSOLBalance\<close>, unfolded at each value of \<open>attempts\<close>.\<close>

lemma loop_at_3:
  "getSOLBalance_loop c 3 lastErr wd
     = (Inl (QueryFailed (case lastErr of Some e \<Rightarrow> e | None \<Rightarrow> ''null'')), wd)"
  by (subst getSOLBalance_loop.simps) (simp cong: sum.case_cong del: One_nat_def)

lemma loop_at_2:
  "getSOLBalance_loop c 2 lastErr wd
     = (case getBalance c 2 of
          Inr lamps \<Rightarrow> (Inr (of_nat lamps / LAMPORTS_PER_SOL), call GetBalance wd)
        | Inl e \<Rightarrow> getSOLBalance_loop c 3 (Some e)
                     ((call GetBalance wd)\<lparr>sleeps := sleeps wd @ [800]\<rparr>))"
  by (subst getSOLBalance_loop.simps) (simp cong: sum.case_cong del: One_nat_def)

lemma loop_at_1:
  "getSOLBalance_loop c 1 lastErr wd
     = (case getBalance c 1 of
          Inr lamps \<Rightarrow> (Inr (of_nat lamps / LAMPORTS_PER_SOL), call GetBalance wd)
        | Inl e \<Rightarrow> getSOLBalance_loop c 2 (Some e)
                     ((call GetBalance wd)\<lparr>sleeps := sleeps wd @ [400]\<rparr>))"
  by (subst getSOLBalance_loop.simps) (simp cong: sum.case_cong del: One_nat_def)

lemma loop_at_0:
  "getSOLBalance_loop c 0 lastErr wd
     = (case getBalance c 0 of
          Inr lamps \<Rightarrow> (Inr (of_nat lamps / LAMPORTS_PER_SOL), call GetBalance wd)
        | Inl e \<Rightarrow> getSOLBalance_loop c 1 (Some e)
                     ((call GetBalance wd)\<lparr>sleeps := sleeps wd @ [200]\<rparr>))"
  by (subst getSOLBalance_loop.simps) (simp cong: sum.case_cong del: One_nat_def)

text \<open>
  C9. \<^verbatim>\<open>getSOLBalance\<close> returns the first successful read among at most three
  calls, sleeping 200 ms after the first failure and 400 ms after the second; when all
  three calls fail it sleeps 800 ms more and raises the error of the third call.
\<close>

theorem getSOLBalance_retries:
  "(getBalance c 0 = Inr l0 \<longrightarrow>
      getSOLBalance c wd
        = (Inr (of_nat l0 / LAMPORTS_PER_SOL), wd\<lparr>netCalls := netCalls wd @ [GetBalance]\<rparr>))
   \<and> (getBalance c 0 = Inl e0 \<and> getBalance c 1 = Inr l1 \<longrightarrow>
      getSOLBalance c wd
        = (Inr (of_nat l1 / LAMPORTS_PER_SOL),
           wd\<lparr>netCalls := netCalls wd @ [GetBalance, GetBalance],
              sleeps := sleeps wd @ [200]\<rparr>))
   \<and> (getBalance c 0 = Inl e0 \<and> getBalance c 1 = Inl e1 \<and> getBalance c 2 = Inr l2 \<longrightarrow>
      getSOLBalance c wd
        = (Inr (of_nat l2 / LAMPORTS_PER_SOL),
           wd\<lparr>netCalls := netCalls wd @ [GetBalance, GetBalance, GetBalance],
              sleeps := sleeps wd @ [200, 400]\<rparr>))
   \<and> (getBalance c 0 = Inl e0 \<and> getBalance c 1 = Inl e1 \<and> getBalance c 2 = Inl e2 \<longrightarrow>
      getSOLBalance c wd
        = (Inl (QueryFailed e2),
           wd\<lparr>netCalls := netCalls wd @ [GetBalance, GetBalance, GetBalance],
              sleeps := sleeps wd @ [200, 400, 800]\<rparr>))"
  by (simp add: getSOLBalance_def loop_at_0 loop_at_1 loop_at_2 loop_at_3 call_def
      del: One_nat_def)


theorem getSOLBalance_retries_witness:
  "getSOLBalance (failingFirst 0) world0
     = (Inr (5 / 2), world0\<lparr>netCalls := [GetBalance]\<rparr>)
   \<and> getSOLBalance (failingFirst 1) world0
     = (Inr (5 / 2), world0\<lparr>netCalls := [GetBalance, GetBalance], sleeps := [200]\<rparr>)
   \<and> getSOLBalance (failingFirst 2) world0
     = (Inr (5 / 2),
        world0\<lparr>netCalls := [GetBalance, GetBalance, GetBalance], sleeps := [200, 400]\<rparr>)
   \<and> getSOLBalance (failingFirst 3) world0
     = (Inl (QueryFailed ''timeout 2''),
        world0\<lparr>netCalls := [GetBalance, GetBalance, GetBalance],
               sleeps := [200, 400, 800]\<rparr>)"
  using getSOLBalance_retries[of "failingFirst 0" 2500000000 world0]
    getSOLBalance_retries[of "failingFirst 1" _ world0 "''timeout 0''" 2500000000]
    getSOLBalance_retries[of "failingFirst 2" _ world0 "''timeout 0''" _ "''timeout 1''"
      2500000000]
    getSOLBalance_retries[of "failingFirst 3" _ world0 "''timeout 0''" _ "''timeout 1''"
      _ "''timeout 2''"]
  by (simp add: failingFirst_def world0_def LAMPORTS_PER_SOL_def string_of_nat.simps
      digit_char_def)

section \<open>Selling on the simulated venue\<close>

text \<open>
  C10. \<^verbatim>\<open>sell\<close> returns \<^verbatim>\<open>null\<close> and leaves the wallet and the world as they were (no
  transfer, no RPC call, the same history and ledger), while the trade count grows by
  one and the sell volume by the amount, and \<^verbatim>\<open>getStats\<close> reports both.
\<close>

theorem sell_moves_no_funds:
  "sell amountSOL (dex, w, wd)
     = (None,
        dex\<lparr>totalSellVolume := totalSellVolume dex + amountSOL,
            tradeCount := tradeCount dex + 1\<rparr>, w, wd)
   \<and> getStats (fst (snd (sell amountSOL (dex, w, wd))))
     = \<lparr>stats_tradeCount = tradeCount dex + 1,
        stats_totalBuyVolume = totalBuyVolume dex,
        stats_totalSellVolume = totalSellVolume dex + amountSOL,
        netFlow = totalBuyVolume dex - (totalSellVolume dex + amountSOL)\<rparr>"
  by (simp add: sell_def getStats_def)

section \<open>Facts about the decision loop\<close>

lemma emit_fields [simp]:
  "state (emit e a) = state a" "cycleCount (emit e a) = cycleCount a"
  "maxCycles (emit e a) = maxCycles a" "cycleTimer (emit e a) = cycleTimer a"
  "pendingTimers (emit e a) = pendingTimers a" "nextHandle (emit e a) = nextHandle a"
  "emitted (emit e a) = emitted a @ [e]" "eventLog (emit e a) = eventLog a"
  "hookCalls (emit e a) = hookCalls a" "errorListener (emit e a) = errorListener a"
  "unhandled (emit e a) = unhandled a"
  by (simp_all add: emit_def)

lemma logEvent_fields [simp]:
  "state (logEvent e a) = state a" "cycleCount (logEvent e a) = cycleCount a"
  "maxCycles (logEvent e a) = maxCycles a" "cycleTimer (logEvent e a) = cycleTimer a"
  "pendingTimers (logEvent e a) = pendingTimers a" "nextHandle (logEvent e a) = nextHandle a"
  "emitted (logEvent e a) = emitted a" "eventLog (logEvent e a) = eventLog a @ [e]"
  "hookCalls (logEvent e a) = hookCalls a" "errorListener (logEvent e a) = errorListener a"
  "unhandled (logEvent e a) = unhandled a"
  by (simp_all add: logEvent_def)

lemma hookCall_fields [simp]:
  "state (hookCall h a) = state a" "cycleCount (hookCall h a) = cycleCount a"
  "maxCycles (hookCall h a) = maxCycles a" "cycleTimer (hookCall h a) = cycleTimer a"
  "pendingTimers (hookCall h a) = pendingTimers a" "nextHandle (hookCall h a) = nextHandle a"
  "emitted (hookCall h a) = emitted a" "eventLog (hookCall h a) = eventLog a"
  "hookCalls (hookCall h a) = hookCalls a @ [h]"
  "errorListener (hookCall h a) = errorListener a" "unhandled (hookCall h a) = unhandled a"
  by (simp_all add: hookCall_def)







section \<open>The cycle cap\<close>




section \<open>The balance floor\<close>

text \<open>
  C5 as stated fails in one point: no event named \<open>balance_paused\<close> is emitted. On a
  low balance the listeners receive \<open>paused\<close>; \<open>balance_paused\<close> is the type of the
  record handed to the event log.
\<close>

theorem low_balance_event_name_counterexample:
  "map eventName (emitted (fireTimer 0 lowEnv (snd (start (BaseAgent_new config3)))))
     = [''started'', ''cycle_start'', ''paused'']
   \<and> ''balance_paused''
       \<notin> set (map eventName (emitted (fireTimer 0 lowEnv (snd (start (BaseAgent_new config3))))))
   \<and> map logType (eventLog (fireTimer 0 lowEnv (snd (start (BaseAgent_new config3)))))
     = [''started'', ''cycle_start'', ''balance_paused'']"
  by (simp add: start_def BaseAgent_new_def config3_def scheduleNextCycle_def emit_def
      logEvent_def Let_def fireTimer_def runCycle_def cycleBody_def lowEnv_def quietEnv_def
      hookCall_def eventName_def logType_def)

text \<open>
  C5, as amended. A cycle starts (the agent is neither stopped nor paused) with a floor
  \<open>minBalance > 0\<close> and a balance read strictly below it. Then the agent ends the cycle
  paused; the listeners receive \<open>cycle_start\<close> and \<open>paused\<close>, and the event log is
  handed \<open>cycle_start\<close> and \<open>balance_paused\<close>; the only call made is the balance read, none of
  observe, think and act; and no timer is set: the pending timers and the timer handle
  are those from before the cycle, less the timer that fired.
\<close>

theorem low_balance_pauses:
  assumes "minBalance env > 0" and "walletBalance env = Inr balance"
    and "balance < minBalance env" and "state a \<noteq> stopped" and "state a \<noteq> paused"
  shows "runCycle env a
           = a\<lparr>cycleCount := cycleCount a + 1, state := paused,
               emitted := emitted a @ [E_cycle_start (cycleCount a + 1), E_paused],
               eventLog := eventLog a @ [L_cycle_start (cycleCount a + 1),
                                         L_balance_paused balance (minBalance env)],
               hookCalls := hookCalls a @ [H_getSOLBalance]\<rparr>
         \<and> state (runCycle env a) = paused
         \<and> pendingTimers (runCycle env a) = pendingTimers a
         \<and> cycleTimer (runCycle env a) = cycleTimer a
         \<and> (h \<in> set (pendingTimers a) \<longrightarrow>
              pendingTimers (fireTimer h env a) = removeAll h (pendingTimers a)
              \<and> state (fireTimer h env a) = paused
              \<and> hookCalls (fireTimer h env a) = hookCalls a @ [H_getSOLBalance])"
  using assms
  by (simp add: runCycle_def cycleBody_def fireTimer_def Let_def emit_def logEvent_def
      hookCall_def)

theorem low_balance_pauses_witness:
  "fireTimer 0 lowEnv (snd (start (BaseAgent_new config3)))
     = (snd (start (BaseAgent_new config3)))
         \<lparr>cycleCount := 1, state := paused, pendingTimers := [],
          emitted := [E_started, E_cycle_start 1, E_paused],
          eventLog := [L_started, L_cycle_start 1, L_balance_paused (1 / 2) 1],
          hookCalls := [H_getSOLBalance]\<rparr>"
proof -
  let ?a = "(snd (start (BaseAgent_new config3)))\<lparr>pendingTimers := []\<rparr>"
  have m: "minBalance lowEnv > 0" and b: "walletBalance lowEnv = Inr (1 / 2)"
    and l: "1 / 2 < minBalance lowEnv"
    by (simp_all add: lowEnv_def quietEnv_def)
  have s: "state ?a \<noteq> stopped" "state ?a \<noteq> paused"
    by (simp_all add: start_def BaseAgent_new_def config3_def scheduleNextCycle_def
        emit_def logEvent_def)
  from low_balance_pauses[OF m b l s, of 0]
  show ?thesis
    by (simp add: fireTimer_def start_def BaseAgent_new_def config3_def scheduleNextCycle_def
        emit_def logEvent_def lowEnv_def quietEnv_def)
qed

section \<open>Stopping\<close>

text \<open>
  C3 fails on the code. \<^verbatim>\<open>stop\<close> is documented as permanent and \<^verbatim>\<open>start\<close> refuses a
  stopped agent, but \<^verbatim>\<open>pause\<close> sets the state to \<open>paused\<close> whatever it was. On a
  stopped agent that has cycles left, \<^verbatim>\<open>pause\<close> then \<^verbatim>\<open>resume\<close> gives an idle agent with
  a pending timer, and the next firing runs a cycle.
\<close>

theorem stopped_loop_runs_again_after_pause_resume:
  "state (stop (snd (start (BaseAgent_new config3)))) = stopped
   \<and> pendingTimers (stop (snd (start (BaseAgent_new config3)))) = []
   \<and> fst (start (stop (snd (start (BaseAgent_new config3))))) = Inl CannotRestart
   \<and> state (pause (stop (snd (start (BaseAgent_new config3))))) = paused
   \<and> state (resume (pause (stop (snd (start (BaseAgent_new config3)))))) = idle
   \<and> pendingTimers (resume (pause (stop (snd (start (BaseAgent_new config3)))))) = [1]
   \<and> cycleCount (tick quietEnv (resume (pause (stop (snd (start (BaseAgent_new config3)))))))
       = 1
   \<and> hookCalls (tick quietEnv (resume (pause (stop (snd (start (BaseAgent_new config3)))))))
       = [H_observe, H_think]"
  by (simp add: start_def stop_def pause_def resume_def BaseAgent_new_def config3_def
      scheduleNextCycle_def clearCycleTimer_def emit_def logEvent_def Let_def
      tick_def fireTimer_def runCycle_def cycleBody_def observeThinkAct_def cycleEnd_def
      quietEnv_def hookCall_def)

section \<open>Facts about the key store\<close>

lemma keyPath_neq_metaPath: "keyPath a \<noteq> metaPath b"
proof
  assume "keyPath a = metaPath b"
  then have "a @ ''.key'' = b @ ''.meta.json''"
    by (simp add: keyPath_def metaPath_def)
  then have "last (a @ ''.key'') = last (b @ ''.meta.json'')"
    by simp
  then show False
    by simp
qed

lemma length_randomBytes [simp]: "length (randomBytes entropy n) = n"
  by (simp add: randomBytes_def)

lemma stored_key_file:
  assumes "gcmEncrypt node (encryptionKey km) (randomBytes entropy IV_LENGTH) (secretKey keypair)
             = (ct, tag)"
    and "writable fs"
  shows "fst (storeKey node km entropy isoNow a keypair lbl fs)
           = Inr \<lparr>meta_agentId = a, meta_publicKey = keypairPublicKey keypair,
                  createdAt = isoNow, label = lbl\<rparr>
         \<and> files (snd (storeKey node km entropy isoNow a keypair lbl fs)) (keyPath a)
           = Some (randomBytes entropy IV_LENGTH @ tag @ ct)"
  using assms keyPath_neq_metaPath[of a a]
  by (simp add: storeKey_def Let_def)

lemma loadKey_stored:
  assumes "files fs (keyPath a) = Some (iv @ tag @ ct)"
    and "length iv = IV_LENGTH" and "length tag = TAG_LENGTH"
  shows "loadKey node km a fs
           = (case gcmDecrypt node (encryptionKey km) iv tag ct of
                None \<Rightarrow> Inl AuthenticationFailed
              | Some decrypted \<Rightarrow>
                  (case fromSecretKey node decrypted of
                     None \<Rightarrow> Inl BadSecretKey
                   | Some keypair \<Rightarrow> Inr keypair))"
  using assms by (simp add: loadKey_def Let_def)

lemma load_after_store:
  assumes "gcmEncrypt node (encryptionKey km1) (randomBytes entropy IV_LENGTH) (secretKey keypair)
             = (ct, tag)"
    and "length tag = TAG_LENGTH" and "writable fs"
  shows "loadKey node km2 a (snd (storeKey node km1 entropy isoNow a keypair lbl fs))
           = (case gcmDecrypt node (encryptionKey km2) (randomBytes entropy IV_LENGTH) tag ct of
                None \<Rightarrow> Inl AuthenticationFailed
              | Some decrypted \<Rightarrow>
                  (case fromSecretKey node decrypted of
                     None \<Rightarrow> Inl BadSecretKey
                   | Some keypair \<Rightarrow> Inr keypair))"
proof -
  from stored_key_file[OF assms(1,3), of isoNow a lbl]
  have "files (snd (storeKey node km1 entropy isoNow a keypair lbl fs)) (keyPath a)
          = Some (randomBytes entropy IV_LENGTH @ tag @ ct)"
    by simp
  from loadKey_stored[OF this _ assms(2)] show ?thesis
    by simp
qed

lemma empty_secret_falls_back:
  "KeyManager_new node (Some []) envSecret = KeyManager_new node None envSecret"
  "KeyManager_new node None None = KeyManager_new node (Some DEFAULT_SECRET) None"
  by (simp_all add: KeyManager_new_def rawSecret_def truthy_def DEFAULT_SECRET_def)

lemma toy_key_length: "length (sha256 toyNode s) = 32"
  by (simp add: toyNode_def)

lemma toy_roundtrip:
  "gcmDecrypt toyNode key iv (snd (gcmEncrypt toyNode key iv m)) (fst (gcmEncrypt toyNode key iv m))
     = Some m"
  by (simp add: toyNode_def o_def)

lemma toy_tag_length:
  "length (snd (gcmEncrypt toyNode (sha256 toyNode s) iv m)) = TAG_LENGTH"
  by (simp add: toyNode_def TAG_LENGTH_def)

lemma toy_keypair: "fromSecretKey toyNode (secretKey toyKeypair) = Some toyKeypair"
  by (simp add: toyNode_def toyKeypair_def)

section \<open>Storing and loading a credential\<close>

text \<open>
  C6. A key manager built from a secret stores a keypair, and a key manager built from
  the same secret loads it. AES-256-GCM is taken to return a tag of 16 bytes and to
  decrypt, under the same key and nonce, what it has just encrypted, and
  \<^verbatim>\<open>Keypair.fromSecretKey\<close> to rebuild the keypair from its own secret key; the store is
  writable. Then \<^verbatim>\<open>loadKey\<close> returns the keypair with the very bytes that were stored.
\<close>

theorem storeKey_loadKey_roundtrip:
  assumes enc: "gcmEncrypt node (encryptionKey (KeyManager_new node secret envSecret))
                  (randomBytes entropy IV_LENGTH) (secretKey keypair) = (ct, tag)"
    and tag: "length tag = TAG_LENGTH"
    and dec: "gcmDecrypt node (encryptionKey (KeyManager_new node secret envSecret))
                (randomBytes entropy IV_LENGTH) tag ct = Some (secretKey keypair)"
    and kp: "fromSecretKey node (secretKey keypair) = Some keypair"
    and wr: "writable fs"
  shows "loadKey node (KeyManager_new node secret envSecret) a
           (snd (storeKey node (KeyManager_new node secret envSecret) entropy isoNow a
                   keypair lbl fs))
         = Inr keypair
       \<and> secretKey (projr (loadKey node (KeyManager_new node secret envSecret) a
           (snd (storeKey node (KeyManager_new node secret envSecret) entropy isoNow a
                   keypair lbl fs)))) = secretKey keypair"
  using load_after_store[OF enc tag wr] dec kp
  by simp

text \<open>The scenario of the specification, on the small instance of the libraries.\<close>

theorem storeKey_loadKey_roundtrip_witness:
  "loadKey toyNode (KeyManager_new toyNode (Some ''test-secret-key-32-chars-exactly!'') None)
     ''agent-x''
     (snd (storeKey toyNode
             (KeyManager_new toyNode (Some ''test-secret-key-32-chars-exactly!'') None)
             (\<lambda>i. of_nat i) ''2026-01-05T00:00:00.000Z'' ''agent-x'' toyKeypair None emptyFs))
   = Inr toyKeypair"
proof -
  let ?km = "KeyManager_new toyNode (Some ''test-secret-key-32-chars-exactly!'') None"
  let ?iv = "randomBytes (\<lambda>i. of_nat i) IV_LENGTH"
  let ?e = "gcmEncrypt toyNode (encryptionKey ?km) ?iv (secretKey toyKeypair)"
  have enc: "?e = (fst ?e, snd ?e)"
    by simp
  have tag: "length (snd ?e) = TAG_LENGTH"
    by (simp add: KeyManager_new_def toy_tag_length)
  have dec: "gcmDecrypt toyNode (encryptionKey ?km) ?iv (snd ?e) (fst ?e)
               = Some (secretKey toyKeypair)"
    by (rule toy_roundtrip)
  have wr: "writable emptyFs"
    by (simp add: emptyFs_def)
  from storeKey_loadKey_roundtrip[OF enc tag dec toy_keypair wr]
  show ?thesis
    by simp
qed

section \<open>Loading under another secret\<close>

text \<open>
  C7 as stated fails where two different secrets have the same effective secret: an
  empty secret is falsy, so the key manager built from it uses the development default
  (no \<^verbatim>\<open>ENCRYPTION_SECRET\<close> being set), and a key manager built from that default as
  its secret loads what the first one stored.
\<close>

theorem loadKey_empty_secret_counterexample:
  "[] \<noteq> ''default-dev-secret-change-me!!''
   \<and> loadKey toyNode (KeyManager_new toyNode (Some ''default-dev-secret-change-me!!'') None)
       ''agent-x''
       (snd (storeKey toyNode (KeyManager_new toyNode (Some []) None)
               (\<lambda>i. of_nat i) ''2026-01-05T00:00:00.000Z'' ''agent-x'' toyKeypair None emptyFs))
     = Inr toyKeypair"
proof -
  let ?km1 = "KeyManager_new toyNode (Some []) None"
  let ?km2 = "KeyManager_new toyNode (Some ''default-dev-secret-change-me!!'') None"
  let ?iv = "randomBytes (\<lambda>i. of_nat i) IV_LENGTH"
  let ?e = "gcmEncrypt toyNode (encryptionKey ?km1) ?iv (secretKey toyKeypair)"
  have same: "?km2 = ?km1"
    by (simp add: KeyManager_new_def rawSecret_def truthy_def DEFAULT_SECRET_def)
  have enc: "?e = (fst ?e, snd ?e)"
    by simp
  have tag: "length (snd ?e) = TAG_LENGTH"
    by (simp add: KeyManager_new_def toy_tag_length)
  have wr: "writable emptyFs"
    by (simp add: emptyFs_def)
  have dec: "gcmDecrypt toyNode (encryptionKey ?km2) ?iv (snd ?e) (fst ?e)
               = Some (secretKey toyKeypair)"
    unfolding same by (rule toy_roundtrip)
  show ?thesis
    using load_after_store[OF enc tag wr] dec toy_keypair
    by simp
qed

text \<open>
  C7, as amended. A credential is stored by a key manager built from \<open>s1\<close> and loaded
  by one built from \<open>s2\<close>, and the effective secrets differ: those that the
  constructor derives the key from, an empty or absent secret standing for
  \<^verbatim>\<open>ENCRYPTION_SECRET\<close> or else the development default. SHA-256 is taken not to
  collide on the two effective secrets, and AES-256-GCM to return a tag of 16 bytes and
  to reject the ciphertext and tag under a key other than the one that produced them.
  Then \<^verbatim>\<open>loadKey\<close> raises the authentication failure and returns no credential.
\<close>

theorem loadKey_other_secret_fails:
  assumes differ: "rawSecret s1 envSecret \<noteq> rawSecret s2 envSecret"
    and hash: "sha256 node (rawSecret s1 envSecret) = sha256 node (rawSecret s2 envSecret)
                 \<longrightarrow> rawSecret s1 envSecret = rawSecret s2 envSecret"
    and enc: "gcmEncrypt node (encryptionKey (KeyManager_new node s1 envSecret))
                  (randomBytes entropy IV_LENGTH) (secretKey keypair) = (ct, tag)"
    and tag: "length tag = TAG_LENGTH"
    and auth: "encryptionKey (KeyManager_new node s2 envSecret)
                   \<noteq> encryptionKey (KeyManager_new node s1 envSecret)
                 \<longrightarrow> gcmDecrypt node (encryptionKey (KeyManager_new node s2 envSecret))
                       (randomBytes entropy IV_LENGTH) tag ct = None"
    and wr: "writable fs"
  shows "loadKey node (KeyManager_new node s2 envSecret) a
           (snd (storeKey node (KeyManager_new node s1 envSecret) entropy isoNow a
                   keypair lbl fs))
         = Inl AuthenticationFailed"
proof -
  have "encryptionKey (KeyManager_new node s2 envSecret)
          \<noteq> encryptionKey (KeyManager_new node s1 envSecret)"
    using differ hash by (auto simp: KeyManager_new_def)
  with auth have "gcmDecrypt node (encryptionKey (KeyManager_new node s2 envSecret))
                    (randomBytes entropy IV_LENGTH) tag ct = None"
    by simp
  with load_after_store[OF enc tag wr] show ?thesis
    by simp
qed

theorem loadKey_other_secret_fails_witness:
  "loadKey toyNode (KeyManager_new toyNode (Some ''b'') None) ''agent-x''
     (snd (storeKey toyNode (KeyManager_new toyNode (Some ''a'') None)
             (\<lambda>i. of_nat i) ''2026-01-05T00:00:00.000Z'' ''agent-x'' toyKeypair None emptyFs))
   = Inl AuthenticationFailed"
proof -
  let ?km1 = "KeyManager_new toyNode (Some ''a'') None"
  let ?km2 = "KeyManager_new toyNode (Some ''b'') None"
  let ?iv = "randomBytes (\<lambda>i. of_nat i) IV_LENGTH"
  let ?e = "gcmEncrypt toyNode (encryptionKey ?km1) ?iv (secretKey toyKeypair)"
  have differ: "rawSecret (Some ''a'') None \<noteq> rawSecret (Some ''b'') None"
    by (simp add: rawSecret_def truthy_def)
  have hash: "sha256 toyNode (rawSecret (Some ''a'') None)
                = sha256 toyNode (rawSecret (Some ''b'') None)
              \<longrightarrow> rawSecret (Some ''a'') None = rawSecret (Some ''b'') None"
    by (simp add: rawSecret_def truthy_def toyNode_def bytes_of_string_def)
  have enc: "?e = (fst ?e, snd ?e)"
    by simp
  have tag: "length (snd ?e) = TAG_LENGTH"
    by (simp add: KeyManager_new_def toy_tag_length)
  have wr: "writable emptyFs"
    by (simp add: emptyFs_def)
  have auth: "encryptionKey ?km2 \<noteq> encryptionKey ?km1
              \<longrightarrow> gcmDecrypt toyNode (encryptionKey ?km2) ?iv (snd ?e) (fst ?e) = None"
    by (simp add: KeyManager_new_def rawSecret_def truthy_def toyNode_def bytes_of_string_def)
  from loadKey_other_secret_fails[OF differ hash enc tag auth wr]
  show ?thesis
    by simp
qed

end
